theory Spec2Isabelle
  imports Main
begin

section \<open>The coverage pipeline runner of wtree (run_coverage.py)\<close>

text \<open>
  The script drives five steps through external tools: create the build directory,
  configure with CMake, build, run the tests, and generate a coverage report with gcovr.
  Everything outside the script is explicit here: the file system is a value, the child
  processes are functions of the environment, an uncaught Python exception is the left
  summand of the result, and the console output and the processes started are recorded
  in the state, in order.
\<close>

subsection \<open>Paths (pathlib)\<close>

text \<open>
  A path is its anchor (drive and root; empty for a relative path) and its components.
  \<open>Path('x.py').parent\<close> is \<open>Path('.')\<close>, the relative path with no component, and
  the parent of an anchor is the anchor itself: both are \<open>butlast\<close> on the components.
\<close>

datatype path = Path (anchor: string) (parts: "string list")

definition is_absolute :: "path \<Rightarrow> bool" where
  "is_absolute p = (anchor p \<noteq> [])"

definition parent :: "path \<Rightarrow> path" where
  "parent p = Path (anchor p) (butlast (parts p))"

text \<open>\<open>Path.absolute()\<close>: an absolute path is returned as it is, a relative one is joined
  to the current directory; nothing is normalised.\<close>

definition absolute :: "path \<Rightarrow> path \<Rightarrow> path" where
  "absolute cwd p = (if is_absolute p then p else Path (anchor cwd) (parts cwd @ parts p))"

text \<open>\<open>p / name\<close> for a single relative component, as in \<open>project_root / "build"\<close>.\<close>

definition truediv :: "path \<Rightarrow> string \<Rightarrow> path" where
  "truediv p name = Path (anchor p) (parts p @ [name])"

text \<open>\<open>sep.join(xs)\<close> of Python.\<close>

fun join :: "string \<Rightarrow> string list \<Rightarrow> string" where
  "join s [] = []"
| "join s [x] = x"
| "join s (x # y # ys) = x @ s @ join s (y # ys)"

text \<open>\<open>str(p)\<close>, with the separator of the platform's path flavour.\<close>

definition path_str :: "string \<Rightarrow> path \<Rightarrow> string" where
  "path_str sp p =
     (if anchor p = [] \<and> parts p = [] then ''.'' else anchor p @ join sp (parts p))"

subsection \<open>Decimal rendering of integers (str of an int)\<close>

definition digit_char :: "nat \<Rightarrow> char" where
  "digit_char d = ''0123456789'' ! d"

function str_nat :: "nat \<Rightarrow> string" where
  "str_nat n = (if n < 10 then [digit_char n] else str_nat (n div 10) @ [digit_char (n mod 10)])"
  by pat_completeness auto
termination
  by (relation "measure (\<lambda>n. n)") auto

declare str_nat.simps [simp del]

definition str_int :: "int \<Rightarrow> string" where
  "str_int i = (if i < 0 then ''-'' @ str_nat (nat (- i)) else str_nat (nat i))"

subsection \<open>The file system\<close>

text \<open>
  The file system maps the canonical path of an entry to its kind; the first entry of a
  path counts. A read-only directory is a directory in which nothing can be created.
  There are no symbolic links.
\<close>

datatype node = File | Dir | ReadOnlyDir

type_synonym filesys = "(path \<times> node) list"

datatype oserror = FileNotFoundError | FileExistsError | NotADirectoryError | PermissionError

text \<open>
  The operating system resolves the \<open>.\<close> and \<open>..\<close> components of a path it is given:
  \<open>.\<close> stays where it is and \<open>..\<close> steps back to the directory above, staying at the
  anchor once there. The steps are taken by name, as Windows takes them and as POSIX
  does where the directories stepped through exist. pathlib resolves neither, so the
  paths of the script reach the system as they were written.
\<close>

fun norm_parts :: "string list \<Rightarrow> string list \<Rightarrow> string list" where
  "norm_parts acc [] = acc"
| "norm_parts acc (c # cs) =
     (if c = ''.'' then norm_parts acc cs
      else if c = ''..'' then norm_parts (butlast acc) cs
      else norm_parts (acc @ [c]) cs)"

definition normpath :: "path \<Rightarrow> path" where
  "normpath p = Path (anchor p) (norm_parts [] (parts p))"

definition node_at :: "filesys \<Rightarrow> path \<Rightarrow> node option" where
  "node_at f p = map_of f (normpath p)"

definition is_dir :: "path \<Rightarrow> filesys \<Rightarrow> bool" where
  "is_dir p f = (node_at f p = Some Dir \<or> node_at f p = Some ReadOnlyDir)"

text \<open>\<open>os.mkdir(p)\<close>: the path must be free and the directory above it a directory that
  can be written.\<close>

definition os_mkdir :: "path \<Rightarrow> filesys \<Rightarrow> oserror + filesys" where
  "os_mkdir p f =
     (if node_at f p \<noteq> None then Inl FileExistsError
      else case map_of f (parent (normpath p)) of
             None \<Rightarrow> Inl FileNotFoundError
           | Some File \<Rightarrow> Inl NotADirectoryError
           | Some ReadOnlyDir \<Rightarrow> Inl PermissionError
           | Some Dir \<Rightarrow> Inr (f @ [(normpath p, Dir)]))"

text \<open>
  \<open>Path.mkdir(exist_ok=True)\<close>, with \<open>parents\<close> left at False: pathlib calls
  \<open>os.mkdir\<close>, re-raises FileNotFoundError, and swallows any other OSError exactly when
  the path is a directory.
\<close>

definition mkdir_exist_ok :: "path \<Rightarrow> filesys \<Rightarrow> oserror + filesys" where
  "mkdir_exist_ok p f =
     (case os_mkdir p f of
        Inr f' \<Rightarrow> Inr f'
      | Inl FileNotFoundError \<Rightarrow> Inl FileNotFoundError
      | Inl err \<Rightarrow> (if is_dir p f then Inr f else Inl err))"

definition endswith :: "string \<Rightarrow> string \<Rightarrow> bool" where
  "endswith s suf = (length suf \<le> length s \<and> drop (length s - length suf) s = suf)"

text \<open>
  The entries strictly below the directory \<open>d\<close>, given by its canonical path, that a
  walk from \<open>d\<close> reaches and whose name ends in \<open>.gcda\<close>: \<open>d\<close> and every path between
  \<open>d\<close> and the entry is a directory. Names are compared as they are written.
\<close>

definition gcda_below :: "path \<Rightarrow> filesys \<Rightarrow> path list" where
  "gcda_below d f =
     filter (\<lambda>p. normpath p = p
                \<and> anchor p = anchor d
                \<and> length (parts d) < length (parts p)
                \<and> take (length (parts d)) (parts p) = parts d
                \<and> list_all (\<lambda>k. is_dir (Path (anchor p) (take k (parts p))) f)
                     [length (parts d) ..< length (parts p)]
                \<and> endswith (last (parts p)) ''.gcda'')
       (remdups (map fst f))"

text \<open>\<open>d.rglob("*.gcda")\<close>: what the walk finds, each path written as \<open>d\<close> followed by
  the components below it.\<close>

definition rglob_gcda :: "path \<Rightarrow> filesys \<Rightarrow> path list" where
  "rglob_gcda d f =
     map (\<lambda>p. Path (anchor d) (parts d @ drop (length (parts (normpath d))) (parts p)))
       (gcda_below (normpath d) f)"

subsection \<open>The environment and the state\<close>

text \<open>
  The environment of a run: where the script file is (\<open>__file__\<close>), the current
  directory, \<open>sys.platform\<close>, \<open>sys.executable\<close>, the path separator, and what the
  external programs do. \<open>spawn\<close> is the child process of \<open>subprocess.run(cmd, cwd=cwd)\<close>:
  it either cannot be started, which raises in the parent (a program that is not
  installed, a working directory that does not exist), or it exits with a code; either
  way it may change the file system. \<open>shell\<close> is \<open>subprocess.run(cmd, shell=True)\<close>:
  the command line goes to the platform's shell, which reports a command it cannot run
  through its exit code; the call raises only when the shell itself cannot be started.
  Printing is taken not to fail.
\<close>

record env =
  script_file :: path
  getcwd :: path
  platform :: string
  executable :: string
  sep :: string
  spawn :: "string list \<Rightarrow> path option \<Rightarrow> filesys \<Rightarrow> (oserror + int) \<times> filesys"
  shell :: "string list \<Rightarrow> filesys \<Rightarrow> (oserror + int) \<times> filesys"

text \<open>A process started: the command, the working directory, whether through the
  shell, and the file system the process found when it started.\<close>

type_synonym call = "string list \<times> path option \<times> bool \<times> filesys"

record state =
  fs :: filesys
  stdout :: "string list"
  calls :: "call list"

text \<open>One \<open>print\<close> call is one entry of \<open>stdout\<close>, without the newline that ends it.\<close>

definition print :: "string \<Rightarrow> state \<Rightarrow> state" where
  "print s st = st\<lparr>stdout := stdout st @ [s]\<rparr>"

definition subprocess_run ::
  "env \<Rightarrow> string list \<Rightarrow> path option \<Rightarrow> state \<Rightarrow> (oserror + int) \<times> state" where
  "subprocess_run e cmd cwd st =
     (let st1 = st\<lparr>calls := calls st @ [(cmd, cwd, False, fs st)]\<rparr>;
          (r, f) = spawn e cmd cwd (fs st1)
      in (r, st1\<lparr>fs := f\<rparr>))"

definition subprocess_run_shell ::
  "env \<Rightarrow> string list \<Rightarrow> state \<Rightarrow> (oserror + int) \<times> state" where
  "subprocess_run_shell e cmd st =
     (let st1 = st\<lparr>calls := calls st @ [(cmd, None, True, fs st)]\<rparr>;
          (r, f) = shell e cmd (fs st1)
      in (r, st1\<lparr>fs := f\<rparr>))"

subsection \<open>run_command\<close>

definition rule60 :: string where
  "rule60 = replicate 60 (CHR ''='')"

definition run_command ::
  "env \<Rightarrow> string list \<Rightarrow> path option \<Rightarrow> state \<Rightarrow> (oserror + bool) \<times> state" where
  "run_command e cmd cwd st =
     (let st1 = print (CHR 0x0A # rule60) st;
          st2 = print (''Running: '' @ join '' '' cmd) st1;
          st3 = print rule60 st2
      in case subprocess_run e cmd cwd st3 of
           (Inl err, st4) \<Rightarrow> (Inl err, st4)
         | (Inr returncode, st4) \<Rightarrow>
             if returncode \<noteq> 0
             then (Inr False,
                   print (''ERROR: Command failed with code '' @ str_int returncode) st4)
             else (Inr True, st4))"

subsection \<open>main\<close>

definition project_root :: "env \<Rightarrow> path" where
  "project_root e = absolute (getcwd e) (parent (script_file e))"

definition build_dir :: "env \<Rightarrow> path" where
  "build_dir e = truediv (project_root e) ''build''"

definition output_file :: "env \<Rightarrow> path" where
  "output_file e = truediv (build_dir e) ''coverage.html''"

definition configure_cmd :: "string list" where
  "configure_cmd = [''cmake'', ''-G'', ''MinGW Makefiles'', ''-DENABLE_COVERAGE=ON'', ''..'']"

definition build_cmd :: "string list" where
  "build_cmd = [''cmake'', ''--build'', ''.'']"

definition test_cmd :: "string list" where
  "test_cmd = [''ctest'', ''--verbose'']"

definition gcovr_cmd :: "env \<Rightarrow> string list" where
  "gcovr_cmd e =
     [executable e, ''-m'', ''gcovr'',
      ''--root'', path_str (sep e) (project_root e),
      ''--exclude'', ''.*external/.*'',
      ''--exclude'', ''.*tests/.*'',
      ''--exclude'', ''.*build.*/.*'',
      ''--exclude'', ''.*_deps/.*'',
      ''--gcov-ignore-parse-errors'', ''negative_hits.warn'',
      ''--html'', ''--html-details'',
      ''-o'', path_str (sep e) (output_file e),
      path_str (sep e) (build_dir e)]"

definition start_cmd :: "env \<Rightarrow> string list" where
  "start_cmd e = [''start'', path_str (sep e) (output_file e)]"

text \<open>The lines printed once the report is written.\<close>

definition success_lines :: "env \<Rightarrow> string list" where
  "success_lines e =
     [CHR 0x0A # rule60,
      ''SUCCESS! Coverage report generated:'',
      ''  '' @ path_str (sep e) (output_file e),
      CHR 0x0A # ''To view in browser, run:'',
      ''  start '' @ path_str (sep e) (output_file e),
      rule60]"

text \<open>
  \<open>main\<close> returns the exit code, or raises what \<open>mkdir\<close> or \<open>subprocess.run\<close>
  raised: the script catches nothing. What the viewer call returns is dropped.
\<close>

definition main :: "env \<Rightarrow> state \<Rightarrow> (oserror + int) \<times> state" where
  "main e st0 =
     (let st1 = print (''Project root: '' @ path_str (sep e) (project_root e)) st0;
          st2 = print (''Build directory: '' @ path_str (sep e) (build_dir e)) st1;
          st3 = print (CHR 0x0A # ''[1/5] Creating build directory...'') st2
      in case mkdir_exist_ok (build_dir e) (fs st3) of
           Inl err \<Rightarrow> (Inl err, st3)
         | Inr f \<Rightarrow>
      (let st4 = print (CHR 0x0A # ''[2/5] Configuring with CMake...'') (st3\<lparr>fs := f\<rparr>)
       in case run_command e configure_cmd (Some (build_dir e)) st4 of
            (Inl err, st5) \<Rightarrow> (Inl err, st5)
          | (Inr False, st5) \<Rightarrow> (Inr 1, st5)
          | (Inr True, st5) \<Rightarrow>
      (let st6 = print (CHR 0x0A # ''[3/5] Building...'') st5
       in case run_command e build_cmd (Some (build_dir e)) st6 of
            (Inl err, st7) \<Rightarrow> (Inl err, st7)
          | (Inr False, st7) \<Rightarrow> (Inr 1, st7)
          | (Inr True, st7) \<Rightarrow>
      (let st8 = print (CHR 0x0A # ''[4/5] Running tests...'') st7
       in case run_command e test_cmd (Some (build_dir e)) st8 of
            (Inl err, st9) \<Rightarrow> (Inl err, st9)
          | (Inr ok, st9) \<Rightarrow>
      (let st10 = (if \<not> ok
                   then print ''WARNING: Some tests failed, but continuing with coverage...'' st9
                   else st9);
           st11 = print (CHR 0x0A # ''[5/5] Generating coverage report...'') st10;
           gcda_files = rglob_gcda (build_dir e) (fs st11);
           st12 = print (''Found '' @ str_int (int (length gcda_files))
                         @ '' coverage data files'') st11
       in if gcda_files = []
          then (Inr 1,
                print ''ERROR: No coverage data found. Make sure tests ran successfully.'' st12)
          else case run_command e (gcovr_cmd e) (Some (project_root e)) st12 of
                 (Inl err, st13) \<Rightarrow> (Inl err, st13)
               | (Inr False, st13) \<Rightarrow> (Inr 1, st13)
               | (Inr True, st13) \<Rightarrow>
      (let st14 = st13\<lparr>stdout := stdout st13 @ success_lines e\<rparr>
       in if platform e = ''win32''
          then case subprocess_run_shell e (start_cmd e) st14 of
                 (Inl err, st15) \<Rightarrow> (Inl err, st15)
               | (Inr _, st15) \<Rightarrow> (Inr 0, st15)
          else (Inr 0, st14)))))))"

subsection \<open>What a run did\<close>

definition configure_call :: "env \<Rightarrow> filesys \<Rightarrow> call" where
  "configure_call e f = (configure_cmd, Some (build_dir e), False, f)"

definition build_call :: "env \<Rightarrow> filesys \<Rightarrow> call" where
  "build_call e f = (build_cmd, Some (build_dir e), False, f)"

definition test_call :: "env \<Rightarrow> filesys \<Rightarrow> call" where
  "test_call e f = (test_cmd, Some (build_dir e), False, f)"

definition gcovr_call :: "env \<Rightarrow> filesys \<Rightarrow> call" where
  "gcovr_call e f = (gcovr_cmd e, Some (project_root e), False, f)"

definition start_call :: "env \<Rightarrow> filesys \<Rightarrow> call" where
  "start_call e f = (start_cmd e, None, True, f)"

definition invoked :: "env \<Rightarrow> state \<Rightarrow> call list" where
  "invoked e st = drop (length (calls st)) (calls (snd (main e st)))"

definition printed :: "env \<Rightarrow> state \<Rightarrow> string list" where
  "printed e st = drop (length (stdout st)) (stdout (snd (main e st)))"

definition warning_line :: string where
  "warning_line = ''WARNING: Some tests failed, but continuing with coverage...''"

definition found_line :: "nat \<Rightarrow> string" where
  "found_line n = ''Found '' @ str_int (int n) @ '' coverage data files''"

subsection \<open>A sample project\<close>

definition demo_root :: path where
  "demo_root = Path ''/'' [''home'', ''dev'', ''wtree'']"

definition demo_build :: path where
  "demo_build = Path ''/'' [''home'', ''dev'', ''wtree'', ''build'']"

definition demo_fs :: filesys where
  "demo_fs = [(Path ''/'' [''home'', ''dev''], Dir), (demo_root, Dir),
              (Path ''/'' [''home'', ''dev'', ''wtree'', ''run_coverage.py''], File)]"

definition demo_fs1 :: filesys where
  "demo_fs1 = demo_fs @ [(demo_build, Dir)]"

definition demo_fs2 :: filesys where
  "demo_fs2 = demo_fs1 @ [(Path ''/'' [''home'', ''dev'', ''wtree'', ''build'', ''test_wtree.gcda''], File)]"

text \<open>Tools that exit with the given codes; the tests leave a coverage-data file when
  \<open>emit\<close> is set.\<close>

definition demo_tools ::
  "int \<Rightarrow> int \<Rightarrow> int \<Rightarrow> bool \<Rightarrow> int
   \<Rightarrow> string list \<Rightarrow> path option \<Rightarrow> filesys \<Rightarrow> (oserror + int) \<times> filesys" where
  "demo_tools cfg bld tst emit rep cmd cwd f =
     (if cmd = configure_cmd then (Inr cfg, f)
      else if cmd = build_cmd then (Inr bld, f)
      else if cmd = test_cmd
           then (Inr tst,
                 if emit
                 then f @ [(Path ''/'' [''home'', ''dev'', ''wtree'', ''build'', ''test_wtree.gcda''], File)]
                 else f)
      else (Inr rep, f))"

text \<open>A machine on which no program can be started, and one on which no shell can.\<close>

definition no_tools ::
  "string list \<Rightarrow> path option \<Rightarrow> filesys \<Rightarrow> (oserror + int) \<times> filesys" where
  "no_tools cmd cwd f = (Inl FileNotFoundError, f)"

definition no_shell :: "string list \<Rightarrow> filesys \<Rightarrow> (oserror + int) \<times> filesys" where
  "no_shell cmd f = (Inl FileNotFoundError, f)"

definition demo_env ::
  "string \<Rightarrow> (string list \<Rightarrow> path option \<Rightarrow> filesys \<Rightarrow> (oserror + int) \<times> filesys) \<Rightarrow> env" where
  "demo_env plat tools =
     \<lparr>script_file = Path ''/'' [''home'', ''dev'', ''wtree'', ''run_coverage.py''],
      getcwd = Path ''/'' [''tmp''],
      platform = plat,
      executable = ''/usr/bin/python3'',
      sep = ''/'',
      spawn = tools,
      shell = (\<lambda>cmd f. (Inr 1, f))\<rparr>"

text \<open>The sample machine under Windows with no shell to start; the tests exit with
  code \<open>t\<close>.\<close>

definition noshell_env :: "int \<Rightarrow> env" where
  "noshell_env t = (demo_env ''win32'' (demo_tools 0 0 t True 0))\<lparr>shell := no_shell\<rparr>"

definition demo_state :: "filesys \<Rightarrow> state" where
  "demo_state f = \<lparr>fs = f, stdout = [], calls = []\<rparr>"


text \<open>What \<open>run_command\<close> prints before it starts the process, and after a failure.\<close>

definition banner :: "string list \<Rightarrow> string list" where
  "banner cmd = [CHR 0x0A # rule60, ''Running: '' @ join '' '' cmd, rule60]"

definition error_line :: "int \<Rightarrow> string" where
  "error_line rc = ''ERROR: Command failed with code '' @ str_int rc"

text \<open>Everything a run prints that writes the report, where the tests exit with code
  \<open>t\<close> and \<open>n\<close> coverage-data files are found.\<close>

definition report_lines :: "env \<Rightarrow> int \<Rightarrow> nat \<Rightarrow> string list" where
  "report_lines e t n =
     [''Project root: '' @ path_str (sep e) (project_root e),
      ''Build directory: '' @ path_str (sep e) (build_dir e),
      CHR 0x0A # ''[1/5] Creating build directory...'',
      CHR 0x0A # ''[2/5] Configuring with CMake...'']
     @ banner configure_cmd
     @ [CHR 0x0A # ''[3/5] Building...'']
     @ banner build_cmd
     @ [CHR 0x0A # ''[4/5] Running tests...'']
     @ banner test_cmd
     @ (if t = 0 then [] else [error_line t, warning_line])
     @ [CHR 0x0A # ''[5/5] Generating coverage report...'', found_line n]
     @ banner (gcovr_cmd e)
     @ success_lines e"

text \<open>The four exclusion patterns of the report: external dependencies, tests, build
  outputs, dependency cache. A command excludes a pattern when the pattern follows an
  \<open>--exclude\<close> option.\<close>

definition exclusion_patterns :: "string list" where
  "exclusion_patterns = [''.*external/.*'', ''.*tests/.*'', ''.*build.*/.*'', ''.*_deps/.*'']"

definition excludes :: "string list \<Rightarrow> string \<Rightarrow> bool" where
  "excludes cmd pat = ((''--exclude'', pat) \<in> set (zip cmd (tl cmd)))"







subsection \<open>Every way a run can go\<close>

lemmas main_unfold = main_def run_command_def subprocess_run_def subprocess_run_shell_def
  print_def Let_def invoked_def printed_def

lemmas cmd_defs = configure_cmd_def build_cmd_def test_cmd_def gcovr_cmd_def

lemmas call_defs = configure_call_def build_call_def test_call_def gcovr_call_def start_call_def

lemma cmds_distinct:
  "configure_cmd \<noteq> build_cmd" "configure_cmd \<noteq> test_cmd" "build_cmd \<noteq> test_cmd"
  "gcovr_cmd e \<noteq> configure_cmd" "gcovr_cmd e \<noteq> build_cmd" "gcovr_cmd e \<noteq> test_cmd"
  by (simp_all add: configure_cmd_def build_cmd_def test_cmd_def gcovr_cmd_def)



lemma run_configure_fails:
  assumes "mkdir_exist_ok (build_dir e) (fs st) = Inr f1"
    and "spawn e configure_cmd (Some (build_dir e)) f1 = (Inr c, f2)" and "c \<noteq> 0"
  shows "fst (main e st) = Inr 1 \<and> invoked e st = [configure_call e f1]"
  using assms by (simp add: main_unfold call_defs)


lemma run_build_fails:
  assumes "mkdir_exist_ok (build_dir e) (fs st) = Inr f1"
    and "spawn e configure_cmd (Some (build_dir e)) f1 = (Inr 0, f2)"
    and "spawn e build_cmd (Some (build_dir e)) f2 = (Inr c, f3)" and "c \<noteq> 0"
  shows "fst (main e st) = Inr 1 \<and> invoked e st = [configure_call e f1, build_call e f2]"
  using assms by (simp add: main_unfold call_defs)


lemma run_no_coverage_data:
  assumes "mkdir_exist_ok (build_dir e) (fs st) = Inr f1"
    and "spawn e configure_cmd (Some (build_dir e)) f1 = (Inr 0, f2)"
    and "spawn e build_cmd (Some (build_dir e)) f2 = (Inr 0, f3)"
    and "spawn e test_cmd (Some (build_dir e)) f3 = (Inr t, f4)"
    and "rglob_gcda (build_dir e) f4 = []"
  shows "fst (main e st) = Inr 1
       \<and> invoked e st = [configure_call e f1, build_call e f2, test_call e f3]"
  using assms by (simp add: main_unfold call_defs)

lemma run_gcovr_raises:
  assumes "mkdir_exist_ok (build_dir e) (fs st) = Inr f1"
    and "spawn e configure_cmd (Some (build_dir e)) f1 = (Inr 0, f2)"
    and "spawn e build_cmd (Some (build_dir e)) f2 = (Inr 0, f3)"
    and "spawn e test_cmd (Some (build_dir e)) f3 = (Inr t, f4)"
    and "rglob_gcda (build_dir e) f4 \<noteq> []"
    and "spawn e (gcovr_cmd e) (Some (project_root e)) f4 = (Inl err, f5)"
  shows "fst (main e st) = Inl err
       \<and> invoked e st = [configure_call e f1, build_call e f2, test_call e f3, gcovr_call e f4]"
  using assms by (simp add: main_unfold call_defs)

lemma run_gcovr_fails:
  assumes "mkdir_exist_ok (build_dir e) (fs st) = Inr f1"
    and "spawn e configure_cmd (Some (build_dir e)) f1 = (Inr 0, f2)"
    and "spawn e build_cmd (Some (build_dir e)) f2 = (Inr 0, f3)"
    and "spawn e test_cmd (Some (build_dir e)) f3 = (Inr t, f4)"
    and "rglob_gcda (build_dir e) f4 \<noteq> []"
    and "spawn e (gcovr_cmd e) (Some (project_root e)) f4 = (Inr g, f5)" and "g \<noteq> 0"
  shows "fst (main e st) = Inr 1
       \<and> invoked e st = [configure_call e f1, build_call e f2, test_call e f3, gcovr_call e f4]"
  using assms by (simp add: main_unfold call_defs)

lemma run_succeeds:
  assumes "mkdir_exist_ok (build_dir e) (fs st) = Inr f1"
    and "spawn e configure_cmd (Some (build_dir e)) f1 = (Inr 0, f2)"
    and "spawn e build_cmd (Some (build_dir e)) f2 = (Inr 0, f3)"
    and "spawn e test_cmd (Some (build_dir e)) f3 = (Inr t, f4)"
    and "rglob_gcda (build_dir e) f4 \<noteq> []"
    and "spawn e (gcovr_cmd e) (Some (project_root e)) f4 = (Inr 0, f5)"
    and "platform e \<noteq> ''win32''"
  shows "fst (main e st) = Inr 0
       \<and> invoked e st = [configure_call e f1, build_call e f2, test_call e f3, gcovr_call e f4]"
  using assms by (simp add: main_unfold call_defs)

lemma run_viewer_returns:
  assumes "mkdir_exist_ok (build_dir e) (fs st) = Inr f1"
    and "spawn e configure_cmd (Some (build_dir e)) f1 = (Inr 0, f2)"
    and "spawn e build_cmd (Some (build_dir e)) f2 = (Inr 0, f3)"
    and "spawn e test_cmd (Some (build_dir e)) f3 = (Inr t, f4)"
    and "rglob_gcda (build_dir e) f4 \<noteq> []"
    and "spawn e (gcovr_cmd e) (Some (project_root e)) f4 = (Inr 0, f5)"
    and "platform e = ''win32''"
    and "shell e (start_cmd e) f5 = (Inr v, f6)"
  shows "fst (main e st) = Inr 0
       \<and> invoked e st = [configure_call e f1, build_call e f2, test_call e f3, gcovr_call e f4,
                          start_call e f5]"
  using assms by (simp add: main_unfold call_defs)

lemma run_viewer_raises:
  assumes "mkdir_exist_ok (build_dir e) (fs st) = Inr f1"
    and "spawn e configure_cmd (Some (build_dir e)) f1 = (Inr 0, f2)"
    and "spawn e build_cmd (Some (build_dir e)) f2 = (Inr 0, f3)"
    and "spawn e test_cmd (Some (build_dir e)) f3 = (Inr t, f4)"
    and "rglob_gcda (build_dir e) f4 \<noteq> []"
    and "spawn e (gcovr_cmd e) (Some (project_root e)) f4 = (Inr 0, f5)"
    and "platform e = ''win32''"
    and "shell e (start_cmd e) f5 = (Inl err, f6)"
  shows "fst (main e st) = Inl err
       \<and> invoked e st = [configure_call e f1, build_call e f2, test_call e f3, gcovr_call e f4,
                          start_call e f5]"
  using assms by (simp add: main_unfold call_defs)

text \<open>Once the report is written the run has started four processes, has printed where
  the report is, and does not return 1, whatever becomes of the viewer.\<close>

lemma run_report_written:
  assumes "mkdir_exist_ok (build_dir e) (fs st) = Inr f1"
    and "spawn e configure_cmd (Some (build_dir e)) f1 = (Inr 0, f2)"
    and "spawn e build_cmd (Some (build_dir e)) f2 = (Inr 0, f3)"
    and "spawn e test_cmd (Some (build_dir e)) f3 = (Inr t, f4)"
    and "rglob_gcda (build_dir e) f4 \<noteq> []"
    and "spawn e (gcovr_cmd e) (Some (project_root e)) f4 = (Inr 0, f5)"
  shows "take 4 (invoked e st)
           = [configure_call e f1, build_call e f2, test_call e f3, gcovr_call e f4]
       \<and> 3 < length (invoked e st)
       \<and> invoked e st ! 3 = gcovr_call e f4
       \<and> fst (main e st) \<noteq> Inr 1
       \<and> (''  '' @ path_str (sep e) (output_file e)) \<in> set (printed e st)"
proof (cases "platform e = ''win32''")
  case False
  with assms show ?thesis
    by (simp add: main_unfold call_defs success_lines_def)
next
  case True
  obtain r f6 where v: "shell e (start_cmd e) f5 = (r, f6)" by force
  from assms True v show ?thesis
    by (cases r) (simp_all add: main_unfold call_defs success_lines_def)
qed

lemma run_report_printed:
  assumes "mkdir_exist_ok (build_dir e) (fs st) = Inr f1"
    and "spawn e configure_cmd (Some (build_dir e)) f1 = (Inr 0, f2)"
    and "spawn e build_cmd (Some (build_dir e)) f2 = (Inr 0, f3)"
    and "spawn e test_cmd (Some (build_dir e)) f3 = (Inr t, f4)"
    and "rglob_gcda (build_dir e) f4 \<noteq> []"
    and "spawn e (gcovr_cmd e) (Some (project_root e)) f4 = (Inr 0, f5)"
  shows "printed e st = report_lines e t (length (rglob_gcda (build_dir e) f4))"
proof (cases "platform e = ''win32''")
  case False
  with assms show ?thesis
    by (simp add: main_unfold report_lines_def banner_def error_line_def warning_line_def
        found_line_def)
next
  case True
  obtain r f6 where v: "shell e (start_cmd e) f5 = (r, f6)" by force
  from assms True v show ?thesis
    by (cases r) (simp_all add: main_unfold report_lines_def banner_def error_line_def
        warning_line_def found_line_def)
qed










text \<open>The platform and the shell reach nothing but the step that opens the report.\<close>

lemma viewer_fields:
  "project_root (e\<lparr>platform := p, shell := sh\<rparr>) = project_root e"
  "build_dir (e\<lparr>platform := p, shell := sh\<rparr>) = build_dir e"
  "output_file (e\<lparr>platform := p, shell := sh\<rparr>) = output_file e"
  "gcovr_cmd (e\<lparr>platform := p, shell := sh\<rparr>) = gcovr_cmd e"
  "start_cmd (e\<lparr>platform := p, shell := sh\<rparr>) = start_cmd e"
  "success_lines (e\<lparr>platform := p, shell := sh\<rparr>) = success_lines e"
  "report_lines (e\<lparr>platform := p, shell := sh\<rparr>) t n = report_lines e t n"
  by (simp_all add: project_root_def build_dir_def output_file_def gcovr_cmd_def
      start_cmd_def success_lines_def report_lines_def)

subsection \<open>The sample project, evaluated\<close>

lemma demo_paths:
  "project_root (demo_env plat tools) = demo_root"
  "build_dir (demo_env plat tools) = demo_build"
  "output_file (demo_env plat tools) = Path ''/'' [''home'', ''dev'', ''wtree'', ''build'', ''coverage.html'']"
  by (simp_all add: project_root_def build_dir_def output_file_def demo_env_def demo_root_def
      demo_build_def absolute_def parent_def is_absolute_def truediv_def)


lemma demo_mkdir:
  "mkdir_exist_ok demo_build demo_fs = Inr demo_fs1"
  "mkdir_exist_ok demo_build demo_fs1 = Inr demo_fs1"
  "mkdir_exist_ok demo_build demo_fs2 = Inr demo_fs2"
  by (simp_all add: mkdir_exist_ok_def os_mkdir_def is_dir_def node_at_def normpath_def
      demo_fs_def demo_fs1_def demo_fs2_def demo_build_def demo_root_def parent_def)

lemma demo_spawn:
  "spawn (demo_env plat (demo_tools cfg bld tst emit rep)) configure_cmd cwd f = (Inr cfg, f)"
  "spawn (demo_env plat (demo_tools cfg bld tst emit rep)) build_cmd cwd f = (Inr bld, f)"
  "spawn (demo_env plat (demo_tools cfg bld tst True rep)) test_cmd cwd demo_fs1 = (Inr tst, demo_fs2)"
  "spawn (demo_env plat (demo_tools cfg bld tst False rep)) test_cmd cwd f = (Inr tst, f)"
  "spawn (demo_env plat (demo_tools cfg bld tst emit rep))
     (gcovr_cmd (demo_env plat (demo_tools cfg bld tst emit rep))) cwd f = (Inr rep, f)"
  by (simp_all add: demo_env_def demo_tools_def demo_fs2_def
      configure_cmd_def build_cmd_def test_cmd_def gcovr_cmd_def)

lemma demo_rglob:
  "rglob_gcda demo_build demo_fs1 = []"
  "rglob_gcda demo_build demo_fs2 = [Path ''/'' [''home'', ''dev'', ''wtree'', ''build'', ''test_wtree.gcda'']]"
  by (simp_all add: rglob_gcda_def gcda_below_def normpath_def node_at_def demo_fs_def
      demo_fs1_def demo_fs2_def demo_build_def demo_root_def is_dir_def endswith_def)

lemma noshell_paths:
  "project_root (noshell_env t) = demo_root"
  "build_dir (noshell_env t) = demo_build"
  "output_file (noshell_env t) = Path ''/'' [''home'', ''dev'', ''wtree'', ''build'', ''coverage.html'']"
  by (simp_all add: noshell_env_def project_root_def build_dir_def output_file_def demo_env_def
      demo_root_def demo_build_def absolute_def parent_def is_absolute_def truediv_def)

lemma noshell_spawn:
  "spawn (noshell_env t) configure_cmd cwd f = (Inr 0, f)"
  "spawn (noshell_env t) build_cmd cwd f = (Inr 0, f)"
  "spawn (noshell_env t) test_cmd cwd demo_fs1 = (Inr t, demo_fs2)"
  "spawn (noshell_env t) (gcovr_cmd (noshell_env t)) cwd f = (Inr 0, f)"
  "platform (noshell_env t) = ''win32''"
  "shell (noshell_env t) cmd f = (Inl FileNotFoundError, f)"
  by (simp_all add: noshell_env_def no_shell_def demo_env_def demo_tools_def demo_fs2_def
      configure_cmd_def build_cmd_def test_cmd_def gcovr_cmd_def)

section \<open>The claims\<close>

subsection \<open>C1: a failing configure or build step ends the run\<close>

text \<open>
  Claim C1. When the configure step exits with a non-zero code, \<open>main\<close> returns 1 and the
  configure process is the only one the run started: the build step is not invoked. When
  configure exits with 0 and the build step exits with a non-zero code, \<open>main\<close> returns 1
  and the run started the configure and build processes only: the test step is not
  invoked.
\<close>

theorem configure_or_build_failure_is_fatal:
  assumes "mkdir_exist_ok (build_dir e) (fs st) = Inr f1"
    and "spawn e configure_cmd (Some (build_dir e)) f1 = (Inr c, f2)"
  shows "(c \<noteq> 0 \<longrightarrow> fst (main e st) = Inr 1 \<and> invoked e st = [configure_call e f1]
                    \<and> build_cmd \<notin> set (map fst (invoked e st)))
       \<and> (c = 0 \<longrightarrow> (\<forall>b f3. spawn e build_cmd (Some (build_dir e)) f2 = (Inr b, f3) \<and> b \<noteq> 0 \<longrightarrow>
               fst (main e st) = Inr 1
             \<and> invoked e st = [configure_call e f1, build_call e f2]
             \<and> test_cmd \<notin> set (map fst (invoked e st))))"
proof (intro conjI impI allI)
  assume "c \<noteq> 0"
  with assms have r: "fst (main e st) = Inr 1 \<and> invoked e st = [configure_call e f1]"
    by (rule run_configure_fails)
  from r show "fst (main e st) = Inr 1" and "invoked e st = [configure_call e f1]" by simp_all
  from r show "build_cmd \<notin> set (map fst (invoked e st))"
    by (simp add: call_defs cmd_defs)
next
  fix b f3
  assume "c = 0" and b: "spawn e build_cmd (Some (build_dir e)) f2 = (Inr b, f3) \<and> b \<noteq> 0"
  with assms have r: "fst (main e st) = Inr 1
      \<and> invoked e st = [configure_call e f1, build_call e f2]"
    by (intro run_build_fails [where c = b and ?f3.0 = f3]) simp_all
  from r show "fst (main e st) = Inr 1"
    and "invoked e st = [configure_call e f1, build_call e f2]" by simp_all
  from r show "test_cmd \<notin> set (map fst (invoked e st))"
    by (simp add: call_defs cmd_defs)
qed

theorem configure_or_build_failure_is_fatal_witness:
  "fst (main (demo_env ''linux'' (demo_tools 2 0 0 True 0)) (demo_state demo_fs)) = Inr 1
   \<and> invoked (demo_env ''linux'' (demo_tools 2 0 0 True 0)) (demo_state demo_fs)
       = [(configure_cmd, Some demo_build, False, demo_fs1)]
   \<and> fst (main (demo_env ''linux'' (demo_tools 0 3 0 True 0)) (demo_state demo_fs)) = Inr 1
   \<and> invoked (demo_env ''linux'' (demo_tools 0 3 0 True 0)) (demo_state demo_fs)
       = [(configure_cmd, Some demo_build, False, demo_fs1),
          (build_cmd, Some demo_build, False, demo_fs1)]"
proof -
  let ?e = "demo_env ''linux'' (demo_tools 2 0 0 True 0)"
  let ?e' = "demo_env ''linux'' (demo_tools 0 3 0 True 0)"
  have m: "mkdir_exist_ok (build_dir ?e) (fs (demo_state demo_fs)) = Inr demo_fs1"
    and m': "mkdir_exist_ok (build_dir ?e') (fs (demo_state demo_fs)) = Inr demo_fs1"
    by (simp_all add: demo_paths demo_mkdir demo_state_def)
  have c: "spawn ?e configure_cmd (Some (build_dir ?e)) demo_fs1 = (Inr 2, demo_fs1)"
    and c': "spawn ?e' configure_cmd (Some (build_dir ?e')) demo_fs1 = (Inr 0, demo_fs1)"
    and b': "spawn ?e' build_cmd (Some (build_dir ?e')) demo_fs1 = (Inr 3, demo_fs1)"
    by (simp_all add: demo_spawn)
  show ?thesis
    using configure_or_build_failure_is_fatal [OF m c]
      configure_or_build_failure_is_fatal [OF m' c'] b'
    by (simp add: call_defs demo_paths)
qed

subsection \<open>C2: failing tests do not stop the run\<close>

text \<open>
  Claim C2. When the test step exits with a non-zero code, the run prints the warning,
  searches the build directory on the file system the tests left and prints how many
  coverage-data files it found; when there is one, the fourth process the run starts is
  the report generator; and \<open>main\<close> returns 1 only when no file was found or the report
  generator exited with a non-zero code, never for the failing tests alone.
\<close>

theorem test_failure_is_tolerated:
  assumes "mkdir_exist_ok (build_dir e) (fs st) = Inr f1"
    and "spawn e configure_cmd (Some (build_dir e)) f1 = (Inr 0, f2)"
    and "spawn e build_cmd (Some (build_dir e)) f2 = (Inr 0, f3)"
    and "spawn e test_cmd (Some (build_dir e)) f3 = (Inr t, f4)"
    and "t \<noteq> 0"
  shows "warning_line \<in> set (printed e st)
       \<and> found_line (length (rglob_gcda (build_dir e) f4)) \<in> set (printed e st)
       \<and> (rglob_gcda (build_dir e) f4 \<noteq> [] \<longrightarrow>
            take 4 (invoked e st)
              = [configure_call e f1, build_call e f2, test_call e f3, gcovr_call e f4])
       \<and> (fst (main e st) = Inr 1 \<longrightarrow>
            rglob_gcda (build_dir e) f4 = []
          \<or> (\<exists>g f5. spawn e (gcovr_cmd e) (Some (project_root e)) f4 = (Inr g, f5) \<and> g \<noteq> 0))"
proof -
  obtain r4 f5 where c4: "spawn e (gcovr_cmd e) (Some (project_root e)) f4 = (r4, f5)"
    by force
  obtain r5 f6 where c5: "shell e (start_cmd e) f5 = (r5, f6)"
    by force
  have p: "warning_line \<in> set (printed e st)
       \<and> found_line (length (rglob_gcda (build_dir e) f4)) \<in> set (printed e st)"
    using assms c4 c5
    by (cases r4; cases r5) (simp_all add: main_unfold warning_line_def found_line_def)
  have q: "take 4 (invoked e st)
      = [configure_call e f1, build_call e f2, test_call e f3, gcovr_call e f4]
     \<and> (fst (main e st) = Inr 1 \<longrightarrow> (\<exists>g. r4 = Inr g \<and> g \<noteq> 0))"
    if ne: "rglob_gcda (build_dir e) f4 \<noteq> []"
  proof (cases r4)
    case (Inl err)
    with assms c4 ne show ?thesis by (simp add: run_gcovr_raises)
  next
    case (Inr g)
    show ?thesis
    proof (cases "g = 0")
      case True
      with c4 Inr have "spawn e (gcovr_cmd e) (Some (project_root e)) f4 = (Inr 0, f5)"
        by simp
      from run_report_written [OF assms(1) assms(2) assms(3) assms(4) ne this]
      show ?thesis by simp
    next
      case False
      with assms c4 ne Inr show ?thesis by (simp add: run_gcovr_fails)
    qed
  qed
  from p q c4 show ?thesis by auto
qed

theorem test_failure_is_tolerated_witness:
  "warning_line \<in> set (printed (demo_env ''linux'' (demo_tools 0 0 8 True 0)) (demo_state demo_fs))
   \<and> ''Found 1 coverage data files''
       \<in> set (printed (demo_env ''linux'' (demo_tools 0 0 8 True 0)) (demo_state demo_fs))
   \<and> take 4 (invoked (demo_env ''linux'' (demo_tools 0 0 8 True 0)) (demo_state demo_fs))
       = [(configure_cmd, Some demo_build, False, demo_fs1),
          (build_cmd, Some demo_build, False, demo_fs1),
          (test_cmd, Some demo_build, False, demo_fs1),
          (gcovr_cmd (demo_env ''linux'' (demo_tools 0 0 8 True 0)), Some demo_root, False, demo_fs2)]
   \<and> fst (main (demo_env ''linux'' (demo_tools 0 0 8 True 0)) (demo_state demo_fs)) \<noteq> Inr 1"
proof -
  let ?e = "demo_env ''linux'' (demo_tools 0 0 8 True 0)"
  have m: "mkdir_exist_ok (build_dir ?e) (fs (demo_state demo_fs)) = Inr demo_fs1"
    by (simp add: demo_paths demo_mkdir demo_state_def)
  have c: "spawn ?e configure_cmd (Some (build_dir ?e)) demo_fs1 = (Inr 0, demo_fs1)"
    and b: "spawn ?e build_cmd (Some (build_dir ?e)) demo_fs1 = (Inr 0, demo_fs1)"
    and t: "spawn ?e test_cmd (Some (build_dir ?e)) demo_fs1 = (Inr 8, demo_fs2)"
    and r: "spawn ?e (gcovr_cmd ?e) (Some (project_root ?e)) demo_fs2 = (Inr 0, demo_fs2)"
    by (simp_all add: demo_spawn)
  have n: "(8::int) \<noteq> 0" by simp
  have f: "found_line (Suc 0) = ''Found 1 coverage data files''"
    by (simp add: found_line_def str_int_def str_nat.simps digit_char_def)
  show ?thesis
    using test_failure_is_tolerated [OF m c b t n] r
    by (simp add: demo_rglob f call_defs demo_paths)
qed

subsection \<open>C3: no coverage data, no report\<close>

text \<open>
  Claim C3. When the search of the build directory, on the file system the test step
  left, finds no coverage-data file, \<open>main\<close> returns 1 and the run started the configure,
  build and test processes only: the report generator is not invoked.
\<close>

theorem no_coverage_data_is_fatal:
  assumes "mkdir_exist_ok (build_dir e) (fs st) = Inr f1"
    and "spawn e configure_cmd (Some (build_dir e)) f1 = (Inr 0, f2)"
    and "spawn e build_cmd (Some (build_dir e)) f2 = (Inr 0, f3)"
    and "spawn e test_cmd (Some (build_dir e)) f3 = (Inr t, f4)"
    and "rglob_gcda (build_dir e) f4 = []"
  shows "fst (main e st) = Inr 1
       \<and> invoked e st = [configure_call e f1, build_call e f2, test_call e f3]
       \<and> gcovr_cmd e \<notin> set (map fst (invoked e st))"
proof -
  from assms have r: "fst (main e st) = Inr 1
      \<and> invoked e st = [configure_call e f1, build_call e f2, test_call e f3]"
    by (rule run_no_coverage_data)
  moreover from r have "gcovr_cmd e \<notin> set (map fst (invoked e st))"
    by (simp add: call_defs cmds_distinct)
  ultimately show ?thesis by simp
qed

theorem no_coverage_data_is_fatal_witness:
  "fst (main (demo_env ''linux'' (demo_tools 0 0 0 False 0)) (demo_state demo_fs)) = Inr 1
   \<and> invoked (demo_env ''linux'' (demo_tools 0 0 0 False 0)) (demo_state demo_fs)
       = [(configure_cmd, Some demo_build, False, demo_fs1),
          (build_cmd, Some demo_build, False, demo_fs1),
          (test_cmd, Some demo_build, False, demo_fs1)]"
proof -
  let ?e = "demo_env ''linux'' (demo_tools 0 0 0 False 0)"
  have m: "mkdir_exist_ok (build_dir ?e) (fs (demo_state demo_fs)) = Inr demo_fs1"
    by (simp add: demo_paths demo_mkdir demo_state_def)
  have c: "spawn ?e configure_cmd (Some (build_dir ?e)) demo_fs1 = (Inr 0, demo_fs1)"
    and b: "spawn ?e build_cmd (Some (build_dir ?e)) demo_fs1 = (Inr 0, demo_fs1)"
    and t: "spawn ?e test_cmd (Some (build_dir ?e)) demo_fs1 = (Inr 0, demo_fs1)"
    by (simp_all add: demo_spawn)
  have g: "rglob_gcda (build_dir ?e) demo_fs1 = []"
    by (simp add: demo_paths demo_rglob)
  show ?thesis
    using no_coverage_data_is_fatal [OF m c b t g] by (simp add: call_defs demo_paths)
qed

subsection \<open>C4: a written report ends the run with exit code 0\<close>

text \<open>
  Claim C4, as amended. When at least one coverage-data file is found and the report
  generator exits with 0, the run has printed the line that holds the path of the
  report, which is \<open>coverage.html\<close> in \<open>build\<close> in the project root, and \<open>main\<close> returns
  0 on every platform but \<open>win32\<close>, and on \<open>win32\<close> whenever the call that opens the
  report returns, with any code. When that call raises, which it does when no shell can
  be started, \<open>main\<close> ends with its exception. The exit code of the test step is any.
\<close>

theorem report_success_returns_zero:
  assumes "mkdir_exist_ok (build_dir e) (fs st) = Inr f1"
    and "spawn e configure_cmd (Some (build_dir e)) f1 = (Inr 0, f2)"
    and "spawn e build_cmd (Some (build_dir e)) f2 = (Inr 0, f3)"
    and "spawn e test_cmd (Some (build_dir e)) f3 = (Inr t, f4)"
    and "rglob_gcda (build_dir e) f4 \<noteq> []"
    and "spawn e (gcovr_cmd e) (Some (project_root e)) f4 = (Inr 0, f5)"
  shows "(''  '' @ path_str (sep e) (output_file e)) \<in> set (printed e st)
       \<and> output_file e = truediv (truediv (project_root e) ''build'') ''coverage.html''
       \<and> (platform e \<noteq> ''win32'' \<longrightarrow> fst (main e st) = Inr 0)
       \<and> (\<forall>v f6. shell e (start_cmd e) f5 = (Inr v, f6) \<longrightarrow> fst (main e st) = Inr 0)
       \<and> (\<forall>err f6. platform e = ''win32'' \<and> shell e (start_cmd e) f5 = (Inl err, f6) \<longrightarrow>
             fst (main e st) = Inl err)"
proof (intro conjI impI allI)
  from run_report_written [OF assms]
  show "(''  '' @ path_str (sep e) (output_file e)) \<in> set (printed e st)"
    by simp
  show "output_file e = truediv (truediv (project_root e) ''build'') ''coverage.html''"
    by (simp add: output_file_def build_dir_def)
next
  assume "platform e \<noteq> ''win32''"
  with assms show "fst (main e st) = Inr 0"
    by (simp add: run_succeeds)
next
  fix v f6
  assume v: "shell e (start_cmd e) f5 = (Inr v, f6)"
  show "fst (main e st) = Inr 0"
  proof (cases "platform e = ''win32''")
    case True
    from run_viewer_returns [OF assms True v] show ?thesis by simp
  next
    case False
    with assms show ?thesis by (simp add: run_succeeds)
  qed
next
  fix err f6
  assume "platform e = ''win32'' \<and> shell e (start_cmd e) f5 = (Inl err, f6)"
  then have w: "platform e = ''win32''" and v: "shell e (start_cmd e) f5 = (Inl err, f6)"
    by simp_all
  from run_viewer_raises [OF assms w v] show "fst (main e st) = Inl err" by simp
qed

theorem report_success_returns_zero_witness:
  "fst (main (demo_env ''linux'' (demo_tools 0 0 0 True 0)) (demo_state demo_fs)) = Inr 0
   \<and> ''  /home/dev/wtree/build/coverage.html''
       \<in> set (printed (demo_env ''linux'' (demo_tools 0 0 0 True 0)) (demo_state demo_fs))
   \<and> fst (main (demo_env ''win32'' (demo_tools 0 0 0 True 0)) (demo_state demo_fs)) = Inr 0
   \<and> fst (main (noshell_env 0) (demo_state demo_fs)) = Inl FileNotFoundError
   \<and> ''  /home/dev/wtree/build/coverage.html''
       \<in> set (printed (noshell_env 0) (demo_state demo_fs))"
proof -
  let ?e = "demo_env ''linux'' (demo_tools 0 0 0 True 0)"
  let ?w = "demo_env ''win32'' (demo_tools 0 0 0 True 0)"
  let ?n = "noshell_env 0"
  have m: "mkdir_exist_ok (build_dir ?e) (fs (demo_state demo_fs)) = Inr demo_fs1"
    and mw: "mkdir_exist_ok (build_dir ?w) (fs (demo_state demo_fs)) = Inr demo_fs1"
    and mn: "mkdir_exist_ok (build_dir ?n) (fs (demo_state demo_fs)) = Inr demo_fs1"
    by (simp_all add: demo_paths noshell_paths demo_mkdir demo_state_def)
  have c: "spawn ?e configure_cmd (Some (build_dir ?e)) demo_fs1 = (Inr 0, demo_fs1)"
    and b: "spawn ?e build_cmd (Some (build_dir ?e)) demo_fs1 = (Inr 0, demo_fs1)"
    and t: "spawn ?e test_cmd (Some (build_dir ?e)) demo_fs1 = (Inr 0, demo_fs2)"
    and r: "spawn ?e (gcovr_cmd ?e) (Some (project_root ?e)) demo_fs2 = (Inr 0, demo_fs2)"
    and cw: "spawn ?w configure_cmd (Some (build_dir ?w)) demo_fs1 = (Inr 0, demo_fs1)"
    and bw: "spawn ?w build_cmd (Some (build_dir ?w)) demo_fs1 = (Inr 0, demo_fs1)"
    and tw: "spawn ?w test_cmd (Some (build_dir ?w)) demo_fs1 = (Inr 0, demo_fs2)"
    and rw: "spawn ?w (gcovr_cmd ?w) (Some (project_root ?w)) demo_fs2 = (Inr 0, demo_fs2)"
    and cn: "spawn ?n configure_cmd (Some (build_dir ?n)) demo_fs1 = (Inr 0, demo_fs1)"
    and bn: "spawn ?n build_cmd (Some (build_dir ?n)) demo_fs1 = (Inr 0, demo_fs1)"
    and tn: "spawn ?n test_cmd (Some (build_dir ?n)) demo_fs1 = (Inr 0, demo_fs2)"
    and rn: "spawn ?n (gcovr_cmd ?n) (Some (project_root ?n)) demo_fs2 = (Inr 0, demo_fs2)"
    by (simp_all add: demo_spawn noshell_spawn)
  have g: "rglob_gcda (build_dir ?e) demo_fs2 \<noteq> []"
    and gw: "rglob_gcda (build_dir ?w) demo_fs2 \<noteq> []"
    and gn: "rglob_gcda (build_dir ?n) demo_fs2 \<noteq> []"
    by (simp_all add: demo_paths noshell_paths demo_rglob)
  have pe: "platform ?e \<noteq> ''win32''" and se: "sep ?e = ''/''"
    and vw: "shell ?w (start_cmd ?w) demo_fs2 = (Inr 1, demo_fs2)"
    and sn: "sep ?n = ''/''"
    and vn: "platform ?n = ''win32'' \<and> shell ?n (start_cmd ?n) demo_fs2
        = (Inl FileNotFoundError, demo_fs2)"
    by (simp_all add: demo_env_def noshell_env_def no_shell_def)
  note lin = report_success_returns_zero [OF m c b t g r]
  note win = report_success_returns_zero [OF mw cw bw tw gw rw]
  note non = report_success_returns_zero [OF mn cn bn tn gn rn]
  from lin [THEN conjunct1]
    lin [THEN conjunct2, THEN conjunct2, THEN conjunct1, rule_format, OF pe]
    win [THEN conjunct2, THEN conjunct2, THEN conjunct2, THEN conjunct1, rule_format, OF vw]
    non [THEN conjunct1]
    non [THEN conjunct2, THEN conjunct2, THEN conjunct2, THEN conjunct2, rule_format, OF vn]
  show ?thesis
    by (simp add: demo_paths noshell_paths path_str_def se sn)
qed

text \<open>The claim as it was stated, that such a run returns 0, fails under Windows where no
  shell can be started: files are found, the report generator exits with 0, and \<open>main\<close>
  raises.\<close>

theorem report_success_viewer_raises:
  "rglob_gcda (build_dir (noshell_env 0)) demo_fs2 \<noteq> []
   \<and> spawn (noshell_env 0) (gcovr_cmd (noshell_env 0)) (Some (project_root (noshell_env 0)))
         demo_fs2 = (Inr 0, demo_fs2)
   \<and> fst (main (noshell_env 0) (demo_state demo_fs)) = Inl FileNotFoundError"
proof -
  let ?n = "noshell_env 0"
  have mn: "mkdir_exist_ok (build_dir ?n) (fs (demo_state demo_fs)) = Inr demo_fs1"
    by (simp add: noshell_paths demo_mkdir demo_state_def)
  have cn: "spawn ?n configure_cmd (Some (build_dir ?n)) demo_fs1 = (Inr 0, demo_fs1)"
    and bn: "spawn ?n build_cmd (Some (build_dir ?n)) demo_fs1 = (Inr 0, demo_fs1)"
    and tn: "spawn ?n test_cmd (Some (build_dir ?n)) demo_fs1 = (Inr 0, demo_fs2)"
    and rn: "spawn ?n (gcovr_cmd ?n) (Some (project_root ?n)) demo_fs2 = (Inr 0, demo_fs2)"
    and wn: "platform ?n = ''win32''"
    and vn: "shell ?n (start_cmd ?n) demo_fs2 = (Inl FileNotFoundError, demo_fs2)"
    by (simp_all add: noshell_spawn)
  have gn: "rglob_gcda (build_dir ?n) demo_fs2 \<noteq> []"
    by (simp add: noshell_paths demo_rglob)
  from run_viewer_raises [OF mn cn bn tn gn rn wn vn] gn rn show ?thesis
    by simp
qed

subsection \<open>C5: what run_command returns\<close>

text \<open>
  Claim C5, as amended. Whenever the child process is started and exits, \<open>run_command\<close>
  returns True exactly when the exit code is 0, prints its banner and, for a non-zero
  exit code, the error line that holds the code, and raises nothing. When the process
  cannot be started, the exception of \<open>subprocess.run\<close> leaves \<open>run_command\<close>, which
  catches nothing.
\<close>

theorem run_command_reports_exit_code:
  "(\<forall>rc f. spawn e cmd cwd (fs st) = (Inr rc, f) \<longrightarrow>
        fst (run_command e cmd cwd st) = Inr (rc = 0)
      \<and> stdout (snd (run_command e cmd cwd st))
          = stdout st @ banner cmd @ (if rc = 0 then [] else [error_line rc]))
   \<and> (\<forall>err f. spawn e cmd cwd (fs st) = (Inl err, f) \<longrightarrow>
        fst (run_command e cmd cwd st) = Inl err)"
  by (simp add: run_command_def subprocess_run_def print_def Let_def banner_def error_line_def)

theorem run_command_reports_exit_code_witness:
  "fst (run_command (demo_env ''linux'' (demo_tools 2 0 0 True 0)) configure_cmd (Some demo_build)
          (demo_state demo_fs1)) = Inr False
   \<and> stdout (snd (run_command (demo_env ''linux'' (demo_tools 2 0 0 True 0)) configure_cmd
          (Some demo_build) (demo_state demo_fs1)))
       = banner configure_cmd @ [''ERROR: Command failed with code 2'']
   \<and> fst (run_command (demo_env ''linux'' (demo_tools 2 0 0 True 0)) build_cmd (Some demo_build)
          (demo_state demo_fs1)) = Inr True
   \<and> fst (run_command (demo_env ''linux'' no_tools) build_cmd (Some demo_build)
          (demo_state demo_fs1)) = Inl FileNotFoundError"
proof -
  let ?e = "demo_env ''linux'' (demo_tools 2 0 0 True 0)"
  let ?n = "demo_env ''linux'' no_tools"
  let ?st = "demo_state demo_fs1"
  have c: "spawn ?e configure_cmd (Some demo_build) (fs ?st) = (Inr 2, demo_fs1)"
    and b: "spawn ?e build_cmd (Some demo_build) (fs ?st) = (Inr 0, demo_fs1)"
    by (simp_all add: demo_spawn demo_state_def)
  have n: "spawn ?n build_cmd (Some demo_build) (fs ?st) = (Inl FileNotFoundError, demo_fs1)"
    by (simp add: demo_env_def no_tools_def demo_state_def)
  have l: "error_line 2 = ''ERROR: Command failed with code 2''"
    by (simp add: error_line_def str_int_def str_nat.simps digit_char_def)
  have s: "stdout ?st = []" by (simp add: demo_state_def)
  show ?thesis
    using run_command_reports_exit_code [of ?e configure_cmd "Some demo_build" ?st]
      run_command_reports_exit_code [of ?e build_cmd "Some demo_build" ?st]
      run_command_reports_exit_code [of ?n build_cmd "Some demo_build" ?st]
    by (simp add: c b n l s)
qed

text \<open>The claim as it was stated, that \<open>run_command\<close> never raises, fails where CMake is
  not installed.\<close>

theorem run_command_can_raise:
  "fst (run_command (demo_env ''linux'' no_tools) configure_cmd (Some demo_build)
          (demo_state demo_fs1)) = Inl FileNotFoundError"
  by (simp add: run_command_def subprocess_run_def print_def Let_def demo_env_def no_tools_def)

subsection \<open>C6: creating the build directory\<close>




subsection \<open>C7: the report generator is always given the four exclusions\<close>

text \<open>
  Claim C7. In every run that reaches the report step, whatever the file system holds,
  the fourth process started is the report generator, run in the project root, and its
  command excludes each of the four patterns: external dependencies, tests, build
  outputs and the dependency cache.
\<close>

theorem report_command_excludes:
  assumes "mkdir_exist_ok (build_dir e) (fs st) = Inr f1"
    and "spawn e configure_cmd (Some (build_dir e)) f1 = (Inr 0, f2)"
    and "spawn e build_cmd (Some (build_dir e)) f2 = (Inr 0, f3)"
    and "spawn e test_cmd (Some (build_dir e)) f3 = (Inr t, f4)"
    and "rglob_gcda (build_dir e) f4 \<noteq> []"
  shows "3 < length (invoked e st)
       \<and> invoked e st ! 3 = (gcovr_cmd e, Some (project_root e), False, f4)
       \<and> list_all (excludes (gcovr_cmd e)) exclusion_patterns"
proof -
  obtain r4 f5 where c4: "spawn e (gcovr_cmd e) (Some (project_root e)) f4 = (r4, f5)"
    by force
  have "3 < length (invoked e st) \<and> invoked e st ! 3 = gcovr_call e f4"
  proof (cases r4)
    case (Inl err)
    with assms c4 show ?thesis by (simp add: run_gcovr_raises)
  next
    case (Inr g)
    show ?thesis
    proof (cases "g = 0")
      case True
      with c4 Inr have "spawn e (gcovr_cmd e) (Some (project_root e)) f4 = (Inr 0, f5)"
        by simp
      from run_report_written [OF assms this] show ?thesis by simp
    next
      case False
      with assms c4 Inr show ?thesis by (simp add: run_gcovr_fails)
    qed
  qed
  moreover have "list_all (excludes (gcovr_cmd e)) exclusion_patterns"
    by (simp add: excludes_def exclusion_patterns_def gcovr_cmd_def)
  ultimately show ?thesis by (simp add: gcovr_call_def)
qed

theorem report_command_excludes_witness:
  "invoked (demo_env ''linux'' (demo_tools 0 0 0 True 1)) (demo_state demo_fs) ! 3
     = (gcovr_cmd (demo_env ''linux'' (demo_tools 0 0 0 True 1)), Some demo_root, False, demo_fs2)
   \<and> excludes (gcovr_cmd (demo_env ''linux'' (demo_tools 0 0 0 True 1))) ''.*external/.*''
   \<and> excludes (gcovr_cmd (demo_env ''linux'' (demo_tools 0 0 0 True 1))) ''.*tests/.*''
   \<and> excludes (gcovr_cmd (demo_env ''linux'' (demo_tools 0 0 0 True 1))) ''.*build.*/.*''
   \<and> excludes (gcovr_cmd (demo_env ''linux'' (demo_tools 0 0 0 True 1))) ''.*_deps/.*''"
proof -
  let ?e = "demo_env ''linux'' (demo_tools 0 0 0 True 1)"
  have m: "mkdir_exist_ok (build_dir ?e) (fs (demo_state demo_fs)) = Inr demo_fs1"
    by (simp add: demo_paths demo_mkdir demo_state_def)
  have c: "spawn ?e configure_cmd (Some (build_dir ?e)) demo_fs1 = (Inr 0, demo_fs1)"
    and b: "spawn ?e build_cmd (Some (build_dir ?e)) demo_fs1 = (Inr 0, demo_fs1)"
    and t: "spawn ?e test_cmd (Some (build_dir ?e)) demo_fs1 = (Inr 0, demo_fs2)"
    by (simp_all add: demo_spawn)
  have g: "rglob_gcda (build_dir ?e) demo_fs2 \<noteq> []"
    by (simp add: demo_paths demo_rglob)
  have r: "project_root ?e = demo_root" by (simp add: demo_paths)
  from report_command_excludes [OF m c b t g] show ?thesis
    by (simp add: r exclusion_patterns_def)
qed

subsection \<open>C8: opening the report is best effort\<close>

text \<open>
  Claim C8, as amended. After a successful run the report is opened through the shell
  exactly when \<open>sys.platform\<close> is \<open>win32\<close>: there the call is the last process of the run
  and the run ends on the file system the call leaves; on any other platform no further
  process is started, the file system stays as the report generator left it and \<open>main\<close>
  returns 0. The step prints nothing, on any platform and whatever the call does. The
  code the call returns is ignored: \<open>main\<close> returns 0 for every code. Only when the call
  raises, because no shell can be started, does \<open>main\<close> end with that exception instead.
\<close>

theorem viewer_step_is_best_effort:
  assumes "mkdir_exist_ok (build_dir e) (fs st) = Inr f1"
    and "spawn e configure_cmd (Some (build_dir e)) f1 = (Inr 0, f2)"
    and "spawn e build_cmd (Some (build_dir e)) f2 = (Inr 0, f3)"
    and "spawn e test_cmd (Some (build_dir e)) f3 = (Inr t, f4)"
    and "rglob_gcda (build_dir e) f4 \<noteq> []"
    and "spawn e (gcovr_cmd e) (Some (project_root e)) f4 = (Inr 0, f5)"
  shows "(platform e \<noteq> ''win32'' \<longrightarrow>
            fst (main e st) = Inr 0
          \<and> invoked e st = [configure_call e f1, build_call e f2, test_call e f3, gcovr_call e f4]
          \<and> fs (snd (main e st)) = f5)
       \<and> (platform e = ''win32'' \<longrightarrow>
            invoked e st = [configure_call e f1, build_call e f2, test_call e f3,
                            gcovr_call e f4, (start_cmd e, None, True, f5)]
          \<and> fs (snd (main e st)) = snd (shell e (start_cmd e) f5))
       \<and> (\<forall>v f6. platform e = ''win32'' \<and> shell e (start_cmd e) f5 = (Inr v, f6) \<longrightarrow>
             fst (main e st) = Inr 0)
       \<and> (\<forall>err f6. platform e = ''win32'' \<and> shell e (start_cmd e) f5 = (Inl err, f6) \<longrightarrow>
             fst (main e st) = Inl err)
       \<and> printed e st = report_lines e t (length (rglob_gcda (build_dir e) f4))
       \<and> (\<forall>p sh. printed (e\<lparr>platform := p, shell := sh\<rparr>) st = printed e st)
       \<and> (\<forall>p sh. (p = ''win32'' \<longrightarrow> (\<exists>v f6. sh (start_cmd e) f5 = (Inr v, f6))) \<longrightarrow>
             fst (main (e\<lparr>platform := p, shell := sh\<rparr>) st) = Inr 0)"
proof -
  have elsewhere: "fst (main e st) = Inr 0
      \<and> invoked e st = [configure_call e f1, build_call e f2, test_call e f3, gcovr_call e f4]
      \<and> fs (snd (main e st)) = f5"
    if "platform e \<noteq> ''win32''"
    using assms that by (simp add: main_unfold call_defs)
  have windows: "invoked e st = [configure_call e f1, build_call e f2, test_call e f3,
          gcovr_call e f4, (start_cmd e, None, True, f5)]
      \<and> fs (snd (main e st)) = snd (shell e (start_cmd e) f5)"
    if w: "platform e = ''win32''"
  proof -
    obtain r f6 where v: "shell e (start_cmd e) f5 = (r, f6)" by force
    from assms w v show ?thesis
      by (cases r) (simp_all add: main_unfold call_defs)
  qed
  have returns: "fst (main e st) = Inr 0"
    if "platform e = ''win32'' \<and> shell e (start_cmd e) f5 = (Inr v, f6)" for v f6
    using assms that by (simp add: main_unfold)
  have raises: "fst (main e st) = Inl err"
    if "platform e = ''win32'' \<and> shell e (start_cmd e) f5 = (Inl err, f6)" for err f6
    using assms that by (simp add: main_unfold)
  let ?e' = "\<lambda>p sh. e\<lparr>platform := p, shell := sh\<rparr>"
  have there: "mkdir_exist_ok (build_dir (?e' p sh)) (fs st) = Inr f1"
    "spawn (?e' p sh) configure_cmd (Some (build_dir (?e' p sh))) f1 = (Inr 0, f2)"
    "spawn (?e' p sh) build_cmd (Some (build_dir (?e' p sh))) f2 = (Inr 0, f3)"
    "spawn (?e' p sh) test_cmd (Some (build_dir (?e' p sh))) f3 = (Inr t, f4)"
    "rglob_gcda (build_dir (?e' p sh)) f4 \<noteq> []"
    "spawn (?e' p sh) (gcovr_cmd (?e' p sh)) (Some (project_root (?e' p sh))) f4 = (Inr 0, f5)"
    for p sh
    using assms by (simp_all add: viewer_fields)
  have lines: "printed (e\<lparr>platform := p, shell := sh\<rparr>) st = printed e st" for p sh
    using run_report_printed [OF there [where p = p and sh = sh]] run_report_printed [OF assms]
    by (simp add: viewer_fields)
  have zero: "fst (main (e\<lparr>platform := p, shell := sh\<rparr>) st) = Inr 0"
    if "p = ''win32'' \<longrightarrow> (\<exists>v f6. sh (start_cmd e) f5 = (Inr v, f6))" for p sh
  proof (cases "p = ''win32''")
    case False
    then have "platform (?e' p sh) \<noteq> ''win32''" by simp
    from run_succeeds [OF there [where p = p and sh = sh] this] show ?thesis by simp
  next
    case True
    with that obtain v f6 where "sh (start_cmd e) f5 = (Inr v, f6)" by blast
    then have v: "shell (?e' p sh) (start_cmd (?e' p sh)) f5 = (Inr v, f6)"
      by (simp add: viewer_fields)
    from True have "platform (?e' p sh) = ''win32''" by simp
    from run_viewer_returns [OF there [where p = p and sh = sh] this v] show ?thesis by simp
  qed
  note all = run_report_printed [OF assms]
  from elsewhere windows returns raises all lines zero show ?thesis
    by blast
qed

theorem viewer_step_is_best_effort_witness:
  "fst (main (demo_env ''win32'' (demo_tools 0 0 0 True 0)) (demo_state demo_fs)) = Inr 0
   \<and> last (invoked (demo_env ''win32'' (demo_tools 0 0 0 True 0)) (demo_state demo_fs))
       = ([''start'', ''/home/dev/wtree/build/coverage.html''], None, True, demo_fs2)
   \<and> fst (main (demo_env ''linux'' (demo_tools 0 0 0 True 0)) (demo_state demo_fs)) = Inr 0
   \<and> length (invoked (demo_env ''linux'' (demo_tools 0 0 0 True 0)) (demo_state demo_fs)) = 4
   \<and> fst (main (noshell_env 0) (demo_state demo_fs)) = Inl FileNotFoundError
   \<and> fst (main ((demo_env ''win32'' (demo_tools 0 0 0 True 0))
                   \<lparr>platform := ''linux'', shell := no_shell\<rparr>) (demo_state demo_fs)) = Inr 0"
proof -
  let ?w = "demo_env ''win32'' (demo_tools 0 0 0 True 0)"
  let ?l = "demo_env ''linux'' (demo_tools 0 0 0 True 0)"
  let ?n = "noshell_env 0"
  have m: "mkdir_exist_ok (build_dir ?w) (fs (demo_state demo_fs)) = Inr demo_fs1"
    and m': "mkdir_exist_ok (build_dir ?l) (fs (demo_state demo_fs)) = Inr demo_fs1"
    and mn: "mkdir_exist_ok (build_dir ?n) (fs (demo_state demo_fs)) = Inr demo_fs1"
    by (simp_all add: demo_paths noshell_paths demo_mkdir demo_state_def)
  have c: "spawn ?w configure_cmd (Some (build_dir ?w)) demo_fs1 = (Inr 0, demo_fs1)"
    and b: "spawn ?w build_cmd (Some (build_dir ?w)) demo_fs1 = (Inr 0, demo_fs1)"
    and t: "spawn ?w test_cmd (Some (build_dir ?w)) demo_fs1 = (Inr 0, demo_fs2)"
    and r: "spawn ?w (gcovr_cmd ?w) (Some (project_root ?w)) demo_fs2 = (Inr 0, demo_fs2)"
    and c': "spawn ?l configure_cmd (Some (build_dir ?l)) demo_fs1 = (Inr 0, demo_fs1)"
    and b': "spawn ?l build_cmd (Some (build_dir ?l)) demo_fs1 = (Inr 0, demo_fs1)"
    and t': "spawn ?l test_cmd (Some (build_dir ?l)) demo_fs1 = (Inr 0, demo_fs2)"
    and r': "spawn ?l (gcovr_cmd ?l) (Some (project_root ?l)) demo_fs2 = (Inr 0, demo_fs2)"
    and cn: "spawn ?n configure_cmd (Some (build_dir ?n)) demo_fs1 = (Inr 0, demo_fs1)"
    and bn: "spawn ?n build_cmd (Some (build_dir ?n)) demo_fs1 = (Inr 0, demo_fs1)"
    and tn: "spawn ?n test_cmd (Some (build_dir ?n)) demo_fs1 = (Inr 0, demo_fs2)"
    and rn: "spawn ?n (gcovr_cmd ?n) (Some (project_root ?n)) demo_fs2 = (Inr 0, demo_fs2)"
    by (simp_all add: demo_spawn noshell_spawn)
  have g: "rglob_gcda (build_dir ?w) demo_fs2 \<noteq> []"
    and g': "rglob_gcda (build_dir ?l) demo_fs2 \<noteq> []"
    and gn: "rglob_gcda (build_dir ?n) demo_fs2 \<noteq> []"
    by (simp_all add: demo_paths noshell_paths demo_rglob)
  have pw: "platform ?w = ''win32''" and pl: "platform ?l \<noteq> ''win32''"
    and vw: "platform ?w = ''win32'' \<and> shell ?w (start_cmd ?w) demo_fs2 = (Inr 1, demo_fs2)"
    and vn: "platform ?n = ''win32'' \<and> shell ?n (start_cmd ?n) demo_fs2
        = (Inl FileNotFoundError, demo_fs2)"
    by (simp_all add: demo_env_def noshell_env_def no_shell_def)
  have sp: "sep ?w = ''/''"
    by (simp add: demo_env_def)
  have s: "start_cmd ?w = [''start'', ''/home/dev/wtree/build/coverage.html'']"
    by (simp add: start_cmd_def demo_paths path_str_def sp)
  note win = viewer_step_is_best_effort [OF m c b t g r]
  note lin = viewer_step_is_best_effort [OF m' c' b' t' g' r']
  note non = viewer_step_is_best_effort [OF mn cn bn tn gn rn]
  note any = win [THEN conjunct2, THEN conjunct2, THEN conjunct2, THEN conjunct2,
      THEN conjunct2, THEN conjunct2, THEN spec [of _ "''linux''"], THEN spec [of _ no_shell]]
  from any have moved: "fst (main (?w\<lparr>platform := ''linux'', shell := no_shell\<rparr>)
      (demo_state demo_fs)) = Inr 0"
    by simp
  from moved win [THEN conjunct2, THEN conjunct1, rule_format, OF pw]
    win [THEN conjunct2, THEN conjunct2, THEN conjunct1, rule_format, OF vw]
    lin [THEN conjunct1, rule_format, OF pl]
    non [THEN conjunct2, THEN conjunct2, THEN conjunct2, THEN conjunct1, rule_format, OF vn]
  show ?thesis by (simp add: s)
qed

text \<open>The claim as it was stated, that the exit code is 0 whether or not the viewer can
  be launched, fails under Windows where no shell can be started: the tests fail with
  code 5, the report is written all the same, and \<open>main\<close> raises instead of returning 0.\<close>

theorem viewer_launch_can_raise:
  "platform (noshell_env 5) = ''win32''
   \<and> take 4 (map fst (invoked (noshell_env 5) (demo_state demo_fs)))
       = [configure_cmd, build_cmd, test_cmd, gcovr_cmd (noshell_env 5)]
   \<and> fst (main (noshell_env 5) (demo_state demo_fs)) = Inl FileNotFoundError"
proof -
  let ?n = "noshell_env 5"
  have mn: "mkdir_exist_ok (build_dir ?n) (fs (demo_state demo_fs)) = Inr demo_fs1"
    by (simp add: noshell_paths demo_mkdir demo_state_def)
  have cn: "spawn ?n configure_cmd (Some (build_dir ?n)) demo_fs1 = (Inr 0, demo_fs1)"
    and bn: "spawn ?n build_cmd (Some (build_dir ?n)) demo_fs1 = (Inr 0, demo_fs1)"
    and tn: "spawn ?n test_cmd (Some (build_dir ?n)) demo_fs1 = (Inr 5, demo_fs2)"
    and rn: "spawn ?n (gcovr_cmd ?n) (Some (project_root ?n)) demo_fs2 = (Inr 0, demo_fs2)"
    and wn: "platform ?n = ''win32''"
    and vn: "shell ?n (start_cmd ?n) demo_fs2 = (Inl FileNotFoundError, demo_fs2)"
    by (simp_all add: noshell_spawn)
  have gn: "rglob_gcda (build_dir ?n) demo_fs2 \<noteq> []"
    by (simp add: noshell_paths demo_rglob)
  from run_viewer_raises [OF mn cn bn tn gn rn wn vn] wn show ?thesis
    by (simp add: call_defs)
qed

subsection \<open>C9: the project root is where the script is\<close>

text \<open>
  Claim C9. The project root is the parent of the absolute path of the script file, so
  it is absolute whenever the current directory is, and the build directory is that path
  joined with \<open>build\<close>. When \<open>__file__\<close> is absolute the current directory plays no part,
  and two invocations whose script file is at the same absolute place use the same
  project root and build directory, wherever they are launched from.
\<close>

theorem project_root_is_script_directory:
  assumes "parts (script_file e) \<noteq> []"
  shows "project_root e = parent (absolute (getcwd e) (script_file e))
       \<and> build_dir e = truediv (project_root e) ''build''
       \<and> (is_absolute (getcwd e) \<longrightarrow> is_absolute (project_root e))
       \<and> (is_absolute (script_file e) \<longrightarrow>
            (\<forall>d. project_root (e\<lparr>getcwd := d\<rparr>) = project_root e
                \<and> build_dir (e\<lparr>getcwd := d\<rparr>) = build_dir e))
       \<and> (\<forall>e'. parts (script_file e') \<noteq> []
              \<and> absolute (getcwd e') (script_file e') = absolute (getcwd e) (script_file e) \<longrightarrow>
              project_root e' = project_root e \<and> build_dir e' = build_dir e)"
proof -
  have p: "project_root x = parent (absolute (getcwd x) (script_file x))"
    if "parts (script_file x) \<noteq> []" for x :: env
    using that
    by (simp add: project_root_def absolute_def parent_def is_absolute_def butlast_append)
  have a: "is_absolute (getcwd e) \<longrightarrow> is_absolute (project_root e)"
    by (simp add: project_root_def absolute_def parent_def is_absolute_def)
  have d: "is_absolute (script_file e) \<longrightarrow>
      (\<forall>d. project_root (e\<lparr>getcwd := d\<rparr>) = project_root e
          \<and> build_dir (e\<lparr>getcwd := d\<rparr>) = build_dir e)"
    by (simp add: build_dir_def project_root_def absolute_def parent_def is_absolute_def)
  have s: "project_root e' = project_root e \<and> build_dir e' = build_dir e"
    if "parts (script_file e') \<noteq> []"
      and "absolute (getcwd e') (script_file e') = absolute (getcwd e) (script_file e)"
    for e'
    using that assms by (simp add: p build_dir_def)
  from p [OF assms] a d s show ?thesis
    by (simp add: build_dir_def)
qed

theorem project_root_is_script_directory_witness:
  "project_root (demo_env ''linux'' no_tools) = demo_root
   \<and> build_dir (demo_env ''linux'' no_tools) = demo_build
   \<and> project_root ((demo_env ''linux'' no_tools)\<lparr>getcwd := Path ''/'' [''var'', ''tmp'']\<rparr>)
       = demo_root
   \<and> project_root ((demo_env ''linux'' no_tools)
         \<lparr>script_file := Path [] [''wtree'', ''run_coverage.py''],
          getcwd := Path ''/'' [''home'', ''dev'']\<rparr>) = demo_root
   \<and> build_dir ((demo_env ''linux'' no_tools)
         \<lparr>script_file := Path [] [''wtree'', ''run_coverage.py''],
          getcwd := Path ''/'' [''home'', ''dev'']\<rparr>) = demo_build"
proof -
  let ?e = "demo_env ''linux'' no_tools"
  let ?r = "?e\<lparr>script_file := Path [] [''wtree'', ''run_coverage.py''],
                getcwd := Path ''/'' [''home'', ''dev'']\<rparr>"
  have n: "parts (script_file ?e) \<noteq> []"
    by (simp add: demo_env_def)
  have abs: "is_absolute (script_file ?e)"
    by (simp add: demo_env_def is_absolute_def)
  have same: "parts (script_file ?r) \<noteq> []
      \<and> absolute (getcwd ?r) (script_file ?r) = absolute (getcwd ?e) (script_file ?e)"
    by (simp add: demo_env_def absolute_def is_absolute_def)
  have v: "parent (absolute (getcwd ?e) (script_file ?e)) = demo_root"
    by (simp add: demo_env_def absolute_def is_absolute_def parent_def demo_root_def)
  have w: "truediv demo_root ''build'' = demo_build"
    by (simp add: truediv_def demo_root_def demo_build_def)
  note t = project_root_is_script_directory [OF n]
  note root = t [THEN conjunct1, unfolded v]
  note build = t [THEN conjunct2, THEN conjunct1, unfolded root w]
  note moved = t [THEN conjunct2, THEN conjunct2, THEN conjunct2, THEN conjunct1, rule_format,
      OF abs, of "Path ''/'' [''var'', ''tmp'']", THEN conjunct1, unfolded root]
  note rel = t [THEN conjunct2, THEN conjunct2, THEN conjunct2, THEN conjunct2, rule_format,
      OF same, unfolded root build]
  from root build moved rel show ?thesis by simp
qed

subsection \<open>C10: the exit code of the tests does not reach the exit code of the run\<close>



end
